theory Spec2Isabelle
  imports Complex_Main
begin

section \<open>Data model\<close>

text \<open>
  One analysed clause, as the external analyser returns it: a Python dict whose values
  are strings. Only the keys the dashboard and the notifier read are fields here.
\<close>

record clause_record =
  clause_id :: string
  risk_level :: string
  risk_percent :: string
  regulation :: string
  key_clauses :: string
  summary :: string

text \<open>
  A value stored in \<^verbatim>\<open>st.session_state\<close>. \<open>PTime\<close> is a reading of
  \<^verbatim>\<open>datetime.now()\<close>.
\<close>

datatype pyval =
    PNone
  | PBool bool
  | PStr string
  | PTime nat
  | PResults "clause_record list"

text \<open>Python truthiness of a stored value.\<close>

fun truthy :: "pyval \<Rightarrow> bool" where
  "truthy PNone = False"
| "truthy (PBool b) = b"
| "truthy (PStr s) = (s \<noteq> [])"
| "truthy (PTime t) = True"
| "truthy (PResults rs) = (rs \<noteq> [])"

text \<open>
  The keys of \<^verbatim>\<open>st.session_state\<close> that the three source files use, apart from
  \<^verbatim>\<open>show_rewrites\<close>, the display toggle of the table of rewritten clauses.
\<close>

datatype key =
    K_authenticated
  | K_temp_session
  | K_user_email
  | K_user_name
  | K_user_role
  | K_login_time
  | K_analysis_complete
  | K_analysis_results
  | K_contract_name
  | K_email_sent

type_synonym session_state = "key \<Rightarrow> pyval option"

text \<open>\<^verbatim>\<open>st.session_state.get(k, default)\<close>.\<close>

definition ss_get :: "session_state \<Rightarrow> key \<Rightarrow> pyval \<Rightarrow> pyval" where
  "ss_get s k d = (case s k of None \<Rightarrow> d | Some v \<Rightarrow> v)"

section \<open>Strings\<close>

text \<open>
  Python's \<^verbatim>\<open>str.strip()\<close>, \<^verbatim>\<open>str.replace(c, '')\<close> for a one-character
  \<^verbatim>\<open>c\<close>, and \<^verbatim>\<open>str.split(c)\<close>. A character is a code point below 256;
  the white space of \<^verbatim>\<open>str.isspace\<close> in that range is 9..13, 28..32, 133 and 160.
\<close>

definition is_space :: "char \<Rightarrow> bool" where
  "is_space c =
     (let n = of_char c :: nat
      in (9 \<le> n \<and> n \<le> 13) \<or> (28 \<le> n \<and> n \<le> 32) \<or> n = 133 \<or> n = 160)"

definition strip :: "string \<Rightarrow> string" where
  "strip s = rev (dropWhile is_space (rev (dropWhile is_space s)))"

definition remove_char :: "char \<Rightarrow> string \<Rightarrow> string" where
  "remove_char c s = filter (\<lambda>x. x \<noteq> c) s"

text \<open>
  \<^verbatim>\<open>s.split(c)\<close>: the pieces between the occurrences of \<^verbatim>\<open>c\<close>, always at
  least one piece.
\<close>

fun split_on :: "char \<Rightarrow> string \<Rightarrow> string list" where
  "split_on c [] = [[]]"
| "split_on c (x # xs) =
     (if x = c then [] # split_on c xs
      else (case split_on c xs of
              [] \<Rightarrow> [[x]]
            | p # ps \<Rightarrow> (x # p) # ps))"

section \<open>Recommendation policy (app.py, create_summary_insights)\<close>

datatype recommendation = Reject | ReviewRecommended | Acceptable

text \<open>
  The three branches of the recommendation block: \<^verbatim>\<open>st.error\<close> is \<open>Reject\<close>,
  \<^verbatim>\<open>st.warning\<close> is \<open>ReviewRecommended\<close>, \<^verbatim>\<open>st.success\<close> is \<open>Acceptable\<close>.
  The comparison \<^verbatim>\<open>len(medium_risk_items) > total_count * 0.5\<close> is between an integer
  and a float that is exact for every list length below \<open>2 ^ 53\<close>; it is taken over the
  reals.
\<close>

definition create_summary_insights_recommendation :: "clause_record list \<Rightarrow> recommendation" where
  "create_summary_insights_recommendation results =
     (let high_risk_items = filter (\<lambda>r. risk_level r = ''High'') results;
          medium_risk_items = filter (\<lambda>r. risk_level r = ''Medium'') results;
          total_count = length results
      in if high_risk_items \<noteq> [] then Reject
         else if real (length medium_risk_items) > real total_count * 0.5 then ReviewRecommended
         else Acceptable)"

text \<open>The counts the claims speak of.\<close>

definition count_level :: "string \<Rightarrow> clause_record list \<Rightarrow> nat" where
  "count_level l results = length (filter (\<lambda>r. risk_level r = l) results)"

section \<open>Recipients (email_notifier.py, _get_notification_emails)\<close>

text \<open>
  The process environment is a map from variable names to values;
  \<^verbatim>\<open>os.getenv(k, d)\<close> is the lookup with a default.
\<close>

type_synonym environ = "string \<Rightarrow> string option"

definition getenv :: "environ \<Rightarrow> string \<Rightarrow> string \<Rightarrow> string" where
  "getenv env k d = (case env k of None \<Rightarrow> d | Some v \<Rightarrow> v)"

definition fallback_emails :: "string list" where
  "fallback_emails = [''admin@company.com'', ''compliance@company.com'', ''legal@company.com'']"

definition get_notification_emails :: "environ \<Rightarrow> string list" where
  "get_notification_emails env =
     (let emails_str = getenv env ''NOTIFICATION_EMAILS'' ''''
      in if emails_str \<noteq> []
         then map strip (filter (\<lambda>email. strip email \<noteq> []) (split_on CHR '','' emails_str))
         else fallback_emails)"

text \<open>The stripped, non-blank comma-separated entries of an override string.\<close>

definition override_entries :: "string \<Rightarrow> string list" where
  "override_entries s = map strip (filter (\<lambda>e. strip e \<noteq> []) (split_on CHR '','' s))"

section \<open>Session store and authentication (auth_manager.py)\<close>

text \<open>
  An entry of \<^verbatim>\<open>VALID_USERS\<close>. The table has two built-in entries and, when both
  \<^verbatim>\<open>AUTH_USER\<close> and \<^verbatim>\<open>AUTH_PASSWORD\<close> are set and non-empty, a third one
  from the environment.
\<close>

record user_entry =
  password :: string
  name :: string
  role :: string

type_synonym user_table = "string \<Rightarrow> user_entry option"

definition builtin_users :: user_table where
  "builtin_users =
     [''admin@company.com'' \<mapsto>
        \<lparr>password = ''admin123'', name = ''Admin User'', role = ''Administrator''\<rparr>,
      ''user@company.com'' \<mapsto>
        \<lparr>password = ''user123'', name = ''Regular User'', role = ''Analyst''\<rparr>]"

definition VALID_USERS :: "environ \<Rightarrow> user_table" where
  "VALID_USERS env =
     (let ENV_NAME = getenv env ''AUTH_NAME'' ''Environment User''
      in case (env ''AUTH_USER'', env ''AUTH_PASSWORD'') of
           (Some ENV_USER, Some ENV_PASSWORD) \<Rightarrow>
             if ENV_USER \<noteq> [] \<and> ENV_PASSWORD \<noteq> []
             then builtin_users(ENV_USER \<mapsto>
                    \<lparr>password = ENV_PASSWORD, name = ENV_NAME, role = ''User''\<rparr>)
             else builtin_users
         | _ \<Rightarrow> builtin_users)"

text \<open>\<^verbatim>\<open>if k not in st.session_state: st.session_state[k] = v\<close>.\<close>

definition init_key :: "key \<Rightarrow> pyval \<Rightarrow> session_state \<Rightarrow> session_state" where
  "init_key k v s = (if s k = None then s(k \<mapsto> v) else s)"

definition initialize_auth_session :: "session_state \<Rightarrow> session_state" where
  "initialize_auth_session s =
     init_key K_login_time PNone
       (init_key K_user_role PNone
         (init_key K_user_name PNone
           (init_key K_user_email PNone
             (init_key K_temp_session (PBool False)
               (init_key K_authenticated (PBool False) s)))))"

text \<open>
  \<^verbatim>\<open>authenticate_user\<close> returns the pair of the success flag and the message, and
  writes the session only on a match. \<open>now\<close> is the reading of the clock.
\<close>

definition authenticate_user ::
  "user_table \<Rightarrow> nat \<Rightarrow> session_state \<Rightarrow> string \<Rightarrow> string \<Rightarrow> (bool \<times> string) \<times> session_state" where
  "authenticate_user users now s email pw =
     (case users email of
        Some u \<Rightarrow>
          if password u = pw
          then ((True, ''Login successful!''),
                s(K_authenticated \<mapsto> PBool True,
                  K_temp_session \<mapsto> PBool False,
                  K_user_email \<mapsto> PStr email,
                  K_user_name \<mapsto> PStr (name u),
                  K_user_role \<mapsto> PStr (role u),
                  K_login_time \<mapsto> PTime now))
          else ((False, ''Invalid email or password''), s)
      | None \<Rightarrow> ((False, ''Invalid email or password''), s))"

definition create_temp_session :: "nat \<Rightarrow> session_state \<Rightarrow> string \<Rightarrow> bool \<times> session_state" where
  "create_temp_session now s email =
     (True,
      s(K_authenticated \<mapsto> PBool True,
        K_temp_session \<mapsto> PBool True,
        K_user_email \<mapsto> PStr email,
        K_user_name \<mapsto> PStr (''Guest ('' @ email @ '')''),
        K_user_role \<mapsto> PStr ''Guest'',
        K_login_time \<mapsto> PTime now))"

definition is_authenticated :: "session_state \<Rightarrow> bool" where
  "is_authenticated s = truthy (ss_get s K_authenticated (PBool False))"

definition is_temp_session :: "session_state \<Rightarrow> bool" where
  "is_temp_session s = truthy (ss_get s K_temp_session (PBool False))"

definition logout_user :: "session_state \<Rightarrow> session_state" where
  "logout_user s =
     s(K_authenticated \<mapsto> PBool False,
       K_temp_session \<mapsto> PBool False,
       K_user_email \<mapsto> PNone,
       K_user_name \<mapsto> PNone,
       K_user_role \<mapsto> PNone,
       K_login_time \<mapsto> PNone)"

text \<open>
  The kind of a session, read off the two flags as \<^verbatim>\<open>is_authenticated\<close> and
  \<^verbatim>\<open>is_temp_session\<close> read them.
\<close>

datatype session_kind = Unauthenticated | Temporary | Full

definition kind_of :: "session_state \<Rightarrow> session_kind" where
  "kind_of s =
     (if \<not> is_authenticated s then Unauthenticated
      else if is_temp_session s then Temporary
      else Full)"

text \<open>
  The identity fields, as \<^verbatim>\<open>get_current_user\<close> reads them
  (\<^verbatim>\<open>st.session_state.get(k)\<close>, \<^verbatim>\<open>None\<close> when the key is absent).
\<close>

definition identity_field :: "session_state \<Rightarrow> key \<Rightarrow> pyval" where
  "identity_field s k = ss_get s k PNone"

definition identity_null :: "session_state \<Rightarrow> bool" where
  "identity_null s =
     (identity_field s K_user_email = PNone \<and> identity_field s K_user_name = PNone
      \<and> identity_field s K_user_role = PNone)"

definition identity_set :: "session_state \<Rightarrow> bool" where
  "identity_set s =
     (identity_field s K_user_email \<noteq> PNone \<and> identity_field s K_user_name \<noteq> PNone
      \<and> identity_field s K_user_role \<noteq> PNone)"

text \<open>
  The session invariant: an unauthenticated session has no identity field set, any other
  session has all three set.
\<close>

definition session_inv :: "session_state \<Rightarrow> bool" where
  "session_inv s =
     ((kind_of s = Unauthenticated \<longrightarrow> identity_null s)
      \<and> (kind_of s \<noteq> Unauthenticated \<longrightarrow> identity_set s))"

text \<open>The session operations, each with the clock reading it makes.\<close>

datatype session_op =
    Initialize
  | Login string string nat
  | StartTemporary string nat
  | Logout

fun apply_session_op :: "user_table \<Rightarrow> session_state \<Rightarrow> session_op \<Rightarrow> session_state" where
  "apply_session_op users s Initialize = initialize_auth_session s"
| "apply_session_op users s (Login email pw now) = snd (authenticate_user users now s email pw)"
| "apply_session_op users s (StartTemporary email now) = snd (create_temp_session now s email)"
| "apply_session_op users s Logout = logout_user s"

text \<open>
  A message of an action: \<^verbatim>\<open>st.success\<close>, \<^verbatim>\<open>st.warning\<close> or
  \<^verbatim>\<open>st.error\<close>, with the text of the message without its leading pictograph
  and the space after it.
\<close>

datatype ui_msg = St_success string | St_warning string | St_error string

text \<open>An email handed to the transport (\<^verbatim>\<open>yag.send(to, subject, contents)\<close>).\<close>

record mail =
  to :: "string list"
  subject :: string
  contents :: "string list"

text \<open>
  The state an action runs in: the session store, the emails the transport was invoked
  with (in order), and the messages shown by the form handlers and by
  \<^verbatim>\<open>analyze_contract\<close> (in order). What the rendering of the page shows besides
  (banners, sidebar, dashboard) is not recorded.
\<close>

record world =
  session :: session_state
  outbox :: "mail list"
  shown :: "ui_msg list"

definition st_show :: "ui_msg \<Rightarrow> world \<Rightarrow> world" where
  "st_show m w = w\<lparr>shown := shown w @ [m]\<rparr>"

text \<open>
  The handler of the temporary-session form in \<^verbatim>\<open>show_login_form\<close>, run when the
  form is submitted with \<open>temp_email\<close>.
\<close>

definition temp_form_submit :: "nat \<Rightarrow> world \<Rightarrow> string \<Rightarrow> world" where
  "temp_form_submit now w temp_email =
     (if temp_email = [] \<or> CHR ''@'' \<notin> set temp_email
      then st_show (St_error ''Please enter valid email'') w
      else st_show (St_success (''Session created for '' @ temp_email))
             (w\<lparr>session := snd (create_temp_session now (session w) temp_email)\<rparr>))"

text \<open>The handler of the login form in \<^verbatim>\<open>show_login_form\<close>.\<close>

definition login_form_submit :: "user_table \<Rightarrow> nat \<Rightarrow> world \<Rightarrow> string \<Rightarrow> string \<Rightarrow> world" where
  "login_form_submit users now w email pw =
     (if email = [] \<or> pw = []
      then st_show (St_error ''Please enter email and password'') w
      else (case authenticate_user users now (session w) email pw of
              ((success, message), s') \<Rightarrow>
                if success then st_show (St_success message) (w\<lparr>session := s'\<rparr>)
                else st_show (St_error message) (w\<lparr>session := s'\<rparr>)))"

section \<open>Report composition and the notification gate (email_notifier.py)\<close>

text \<open>
  The notifier object: \<^verbatim>\<open>enabled\<close> is true when both transport credentials are set
  and non-empty and the SMTP client could be constructed (\<open>smtp_ok\<close>).
\<close>

record email_notifier =
  enabled :: bool
  notification_emails :: "string list"

definition EmailNotifier_init :: "environ \<Rightarrow> bool \<Rightarrow> email_notifier" where
  "EmailNotifier_init env smtp_ok =
     (let email_user = env ''EMAIL_USER'';
          email_password = env ''EMAIL_PASSWORD'';
          emails = get_notification_emails env
      in if email_user = None \<or> email_user = Some [] \<or> email_password = None
            \<or> email_password = Some []
         then \<lparr>enabled = False, notification_emails = emails\<rparr>
         else \<lparr>enabled = smtp_ok, notification_emails = emails\<rparr>)"

definition check_user_session :: "session_state \<Rightarrow> bool" where
  "check_user_session s =
     (let is_auth = ss_get s K_authenticated (PBool False);
          is_temp = ss_get s K_temp_session (PBool False)
      in if \<not> truthy is_auth \<or> truthy is_temp then False else True)"

definition get_user_info :: "session_state \<Rightarrow> pyval \<times> pyval" where
  "get_user_info s =
     (ss_get s K_user_name (PStr ''Unknown User''),
      ss_get s K_user_email (PStr ''unknown@email.com''))"

text \<open>
  A number as the report formats it: \<^verbatim>\<open>compliance_rate\<close> is a float when there are
  clauses and the integer 0 otherwise. Floats are taken as the reals they stand for.
\<close>

datatype pynum = PInt int | PFloat real

text \<open>
  What the report takes from outside the repository, and its constant text:
  \<^item> \<open>lit k\<close> is the \<open>k\<close>-th stretch of constant markup of the f-string, between two
    interpolated fields;
  \<^item> \<open>fmt_0f\<close> and \<open>fmt_plain\<close> are Python's formatting of a number with the format
    specifications \<^verbatim>\<open>.0f\<close> and the empty one;
  \<^item> \<open>strftime_bdY\<close> is \<^verbatim>\<open>strftime('%b %d, %Y')\<close> of a clock reading;
  \<^item> \<open>str_other\<close> is \<^verbatim>\<open>str\<close> on the stored values that are neither a string,
    a boolean nor \<^verbatim>\<open>None\<close>.
\<close>

record report_env =
  lit :: "nat \<Rightarrow> string"
  fmt_0f :: "pynum \<Rightarrow> string"
  fmt_plain :: "pynum \<Rightarrow> string"
  strftime_bdY :: "nat \<Rightarrow> string"
  str_other :: "pyval \<Rightarrow> string"

fun py_str :: "report_env \<Rightarrow> pyval \<Rightarrow> string" where
  "py_str renv (PStr s) = s"
| "py_str renv PNone = ''None''"
| "py_str renv (PBool b) = (if b then ''True'' else ''False'')"
| "py_str renv v = str_other renv v"

text \<open>\<^verbatim>\<open>str\<close> of a non-negative integer: its decimal digits.\<close>

fun str_nat :: "nat \<Rightarrow> string" where
  "str_nat n =
     (if n < 10 then [char_of (48 + n)]
      else str_nat (n div 10) @ [char_of (48 + n mod 10)])"

declare str_nat.simps [simp del]

text \<open>
  The pictographs of the status line and of the subject. They lie above code point 255
  and are written as the bytes of their UTF-8 encoding.
\<close>

definition icon_alarm :: string where
  "icon_alarm = [CHR 0xF0, CHR 0x9F, CHR 0x9A, CHR 0xA8]"

definition icon_warning :: string where
  "icon_warning = [CHR 0xE2, CHR 0x9A, CHR 0xA0, CHR 0xEF, CHR 0xB8, CHR 0x8F]"

definition icon_check :: string where
  "icon_check = [CHR 0xE2, CHR 0x9C, CHR 0x85]"

text \<open>
  \<^verbatim>\<open>generate_analysis_summary\<close>. \<open>analysis_results\<close> is \<open>None\<close> for Python's
  \<^verbatim>\<open>None\<close>; \<open>now1\<close> and \<open>now2\<close> are the two readings of
  \<^verbatim>\<open>datetime.now()\<close>, in the body and in the footer. The result is \<open>None\<close> where
  the function returns \<^verbatim>\<open>None\<close>.
\<close>

definition generate_analysis_summary ::
  "report_env \<Rightarrow> session_state \<Rightarrow> nat \<Rightarrow> nat \<Rightarrow> clause_record list option \<Rightarrow> string
   \<Rightarrow> string option" where
  "generate_analysis_summary renv s now1 now2 analysis_results contract_name =
     (case analysis_results of
        None \<Rightarrow> None
      | Some df \<Rightarrow>
          if df = [] then None
          else if \<not> check_user_session s then None
          else
            (let user_name = fst (get_user_info s);
                 total_clauses = length df;
                 high_risk = length (filter (\<lambda>r. risk_level r = ''High'') df);
                 medium_risk = length (filter (\<lambda>r. risk_level r = ''Medium'') df);
                 low_risk = length (filter (\<lambda>r. risk_level r = ''Low'') df);
                 compliance_rate =
                   (if total_clauses > 0
                    then PFloat (real low_risk / real total_clauses * 100)
                    else PInt 0);
                 (status_color, status_icon, status_text) =
                   (if high_risk > 0 then (''#ef4444'', icon_alarm, ''HIGH RISK'')
                    else if real medium_risk > real total_clauses * 0.5
                    then (''#f59e0b'', icon_warning, ''MODERATE'')
                    else (''#10b981'', icon_check, ''LOW RISK''))
             in Some (concat
                  [lit renv 0, status_color,
                   lit renv 1, status_icon, '' '', status_text,
                   lit renv 2, contract_name,
                   lit renv 3, py_str renv user_name,
                   lit renv 4, strftime_bdY renv now1,
                   lit renv 5, str_nat total_clauses,
                   lit renv 6, str_nat high_risk,
                   lit renv 7, str_nat medium_risk,
                   lit renv 8, str_nat low_risk,
                   lit renv 9, fmt_0f renv compliance_rate,
                   lit renv 10, fmt_plain renv compliance_rate,
                   lit renv 11, strftime_bdY renv now2,
                   lit renv 12])))"

text \<open>
  The transport: \<open>transport sent m\<close> tells whether \<^verbatim>\<open>yag.send\<close>, invoked with \<open>m\<close>
  after the invocations \<open>sent\<close>, returns (\<open>True\<close>) or raises (\<open>False\<close>).
\<close>

type_synonym transport = "mail list \<Rightarrow> mail \<Rightarrow> bool"

text \<open>
  \<^verbatim>\<open>send_analysis_notification\<close>: the result and the invocations of the transport
  after the call. An exception of the transport is caught and gives \<open>False\<close>.
\<close>

definition send_analysis_notification ::
  "email_notifier \<Rightarrow> transport \<Rightarrow> report_env \<Rightarrow> session_state \<Rightarrow> nat \<Rightarrow> nat \<Rightarrow> mail list
   \<Rightarrow> clause_record list option \<Rightarrow> string \<Rightarrow> bool \<times> mail list" where
  "send_analysis_notification self yag renv s now1 now2 sent analysis_results contract_name =
     (if \<not> enabled self then (False, sent)
      else if \<not> check_user_session s then (False, sent)
      else
        (case generate_analysis_summary renv s now1 now2 analysis_results contract_name of
           None \<Rightarrow> (False, sent)
         | Some summary_html \<Rightarrow>
             if summary_html = [] then (False, sent)
             else
               (let rs = (case analysis_results of None \<Rightarrow> [] | Some l \<Rightarrow> l);
                    high_risk = length (filter (\<lambda>r. risk_level r = ''High'') rs);
                    medium_risk = length (filter (\<lambda>r. risk_level r = ''Medium'') rs);
                    subject =
                      (if high_risk > 0 then icon_alarm @ '' HIGH RISK: '' @ contract_name
                       else if medium_risk > 0 then icon_warning @ '' Review: '' @ contract_name
                       else icon_check @ '' Complete: '' @ contract_name);
                    m = \<lparr>to = notification_emails self, subject = subject,
                         contents = [summary_html]\<rparr>
                in if yag sent m then (True, sent @ [m]) else (False, sent @ [m]))))"

text \<open>The counts the report is built from.\<close>

definition report_metrics :: "clause_record list \<Rightarrow> nat \<times> nat \<times> nat \<times> nat" where
  "report_metrics rs =
     (length rs, count_level ''High'' rs, count_level ''Medium'' rs, count_level ''Low'' rs)"

section \<open>Orchestration (app.py)\<close>

text \<open>
  What an action of the application is run with: the global notifier, the transport
  behind it, the report environment and the credential table.
\<close>

record app_env =
  env_notifier :: email_notifier
  env_yag :: transport
  env_report :: report_env
  env_users :: user_table

text \<open>
  What the external analyser does on the submitted file: it raises (with the text of the
  exception; this also stands for a failure of the temporary file), or returns a list of
  records or \<^verbatim>\<open>None\<close>.
\<close>

datatype analyzer_outcome =
    Analyzer_raises string
  | Analyzer_returns "clause_record list option"

definition results_truthy :: "clause_record list option \<Rightarrow> bool" where
  "results_truthy r = (case r of None \<Rightarrow> False | Some rs \<Rightarrow> rs \<noteq> [])"

definition initialize_session_state :: "session_state \<Rightarrow> session_state" where
  "initialize_session_state s =
     init_key K_email_sent (PBool False)
       (init_key K_contract_name (PStr [])
         (init_key K_analysis_results PNone
           (init_key K_analysis_complete (PBool False)
             (initialize_auth_session s))))"

text \<open>
  \<^verbatim>\<open>analyze_contract\<close>, on a file named \<open>file_name\<close>: the value it returns and the
  state after it. The notifier catches every exception of the send itself, so the inner
  \<^verbatim>\<open>except\<close> of the source has nothing to catch.
\<close>

definition analyze_contract ::
  "app_env \<Rightarrow> nat \<Rightarrow> nat \<Rightarrow> analyzer_outcome \<Rightarrow> world \<Rightarrow> string
   \<Rightarrow> clause_record list option \<times> world" where
  "analyze_contract aenv now1 now2 outcome w file_name =
     (case outcome of
        Analyzer_raises e \<Rightarrow> (None, st_show (St_error (''Error during analysis: '' @ e)) w)
      | Analyzer_returns analysis_results \<Rightarrow>
          if results_truthy analysis_results
          then
            (let w1 = st_show (St_success ''Analysis complete!'') w;
                 (email_success, sent') =
                   send_analysis_notification (env_notifier aenv) (env_yag aenv)
                     (env_report aenv) (session w1) now1 now2 (outbox w1)
                     analysis_results file_name;
                 w2 = w1\<lparr>outbox := sent'\<rparr>
             in if email_success
                then (analysis_results,
                      (st_show (St_success '' Email notifications sent to compliance team!'') w2)
                        \<lparr>session := (session w2)(K_email_sent \<mapsto> PBool True)\<rparr>)
                else (analysis_results,
                      st_show
                        (St_warning '' Analysis complete but email notifications failed to send'')
                        w2))
          else (None, st_show (St_error ''Failed to analyze contract'') w))"

text \<open>
  One run of the script \<^verbatim>\<open>main\<close> with the interaction that triggered it. Each
  interaction carries what the run reads from outside: the text fields, the clock
  readings, the outcome of the analyser. \<open>Redraw\<close> is a run without interaction, as
  after \<^verbatim>\<open>st.rerun()\<close>. The test-email button of the sidebar is not an event here.
\<close>

datatype event =
    Redraw
  | Login_submit string string nat
  | Temp_submit string nat
  | Logout_click
  | Submit_click string analyzer_outcome nat nat
  | Analyze_another_click

definition run_complete :: "session_state \<Rightarrow> bool" where
  "run_complete s = truthy (ss_get s K_analysis_complete PNone)"

definition run_has_results :: "session_state \<Rightarrow> bool" where
  "run_has_results s = truthy (ss_get s K_analysis_results PNone)"

definition main :: "app_env \<Rightarrow> world \<Rightarrow> event \<Rightarrow> world" where
  "main aenv w ev =
     (let w0 = w\<lparr>session := initialize_session_state (session w)\<rparr>
      in if \<not> is_authenticated (session w0)
         then (case ev of
                 Login_submit email pw now \<Rightarrow> login_form_submit (env_users aenv) now w0 email pw
               | Temp_submit temp_email now \<Rightarrow> temp_form_submit now w0 temp_email
               | _ \<Rightarrow> w0)
         else (case ev of
                 Logout_click \<Rightarrow> w0\<lparr>session := logout_user (session w0)\<rparr>
               | Submit_click file_name outcome now1 now2 \<Rightarrow>
                   if \<not> run_complete (session w0)
                   then
                     (let w1 = st_show (St_success (''Uploaded: '' @ file_name))
                                 (w0\<lparr>session := (session w0)(K_contract_name \<mapsto> PStr file_name)\<rparr>);
                          (results, w2) = analyze_contract aenv now1 now2 outcome w1 file_name
                      in case results of
                           None \<Rightarrow> w2
                         | Some rs \<Rightarrow>
                             if rs \<noteq> []
                             then w2\<lparr>session := (session w2)
                                    (K_analysis_results \<mapsto> PResults rs,
                                     K_analysis_complete \<mapsto> PBool True)\<rparr>
                             else w2)
                   else w0
               | Analyze_another_click \<Rightarrow>
                   if run_complete (session w0) \<and> run_has_results (session w0)
                   then w0\<lparr>session := (session w0)
                          (K_analysis_complete \<mapsto> PBool False,
                           K_analysis_results \<mapsto> PNone,
                           K_contract_name \<mapsto> PStr [],
                           K_email_sent \<mapsto> PBool False)\<rparr>
                   else w0
               | _ \<Rightarrow> w0))"

section \<open>Average risk score (app.py, create_dashboard)\<close>

text \<open>
  Python's \<^verbatim>\<open>float\<close> on a string is not code of this repository; it is a
  parameter: the number for the strings it accepts, \<open>None\<close> where it raises
  \<^verbatim>\<open>ValueError\<close>. Floats are taken as the reals they stand for, so the rounding of
  the sum and of the division is not modelled.
\<close>

type_synonym float_parser = "string \<Rightarrow> real option"

text \<open>
  The loop that fills \<^verbatim>\<open>risk_percentages\<close>: every \<^verbatim>\<open>%\<close> is removed, then the
  surrounding white space; a record whose text does not convert is skipped by the bare
  \<^verbatim>\<open>except\<close>.
\<close>

fun risk_percentages_loop :: "float_parser \<Rightarrow> clause_record list \<Rightarrow> real list \<Rightarrow> real list" where
  "risk_percentages_loop float_of [] risk_percentages = risk_percentages"
| "risk_percentages_loop float_of (r # results) risk_percentages =
     (let risk_val = strip (remove_char CHR ''%'' (risk_percent r))
      in case float_of risk_val of
           None \<Rightarrow> risk_percentages_loop float_of results risk_percentages
         | Some v \<Rightarrow> risk_percentages_loop float_of results (risk_percentages @ [v]))"

definition avg_risk :: "float_parser \<Rightarrow> clause_record list \<Rightarrow> real" where
  "avg_risk float_of results =
     (let risk_percentages = risk_percentages_loop float_of results []
      in if risk_percentages \<noteq> []
         then sum_list risk_percentages / real (length risk_percentages)
         else 0)"

text \<open>
  The same average with the text of each record prepared as the specification words it:
  the surrounding white space and one trailing \<^verbatim>\<open>%\<close> are stripped, nothing else.
\<close>

definition spec_strip_percent :: "string \<Rightarrow> string" where
  "spec_strip_percent s =
     (let t = strip s
      in strip (if t \<noteq> [] \<and> last t = CHR ''%'' then butlast t else t))"

definition spec_avg_risk :: "float_parser \<Rightarrow> clause_record list \<Rightarrow> real" where
  "spec_avg_risk float_of results =
     (let vs = List.map_filter (\<lambda>r. float_of (spec_strip_percent (risk_percent r))) results
      in if vs \<noteq> [] then sum_list vs / real (length vs) else 0)"

text \<open>
  A parser for the examples: \<^verbatim>\<open>float\<close> on the strings made of decimal digits
  only (their decimal value), and a rejection of every other string. The examples give
  it only digit strings and strings that \<^verbatim>\<open>float\<close> rejects too.
\<close>

definition digit_value :: "char \<Rightarrow> nat" where
  "digit_value c = of_char c - 48"

definition is_digit :: "char \<Rightarrow> bool" where
  "is_digit c = (48 \<le> (of_char c :: nat) \<and> (of_char c :: nat) \<le> 57)"

definition float_of_digits :: float_parser where
  "float_of_digits s =
     (if s \<noteq> [] \<and> list_all is_digit s
      then Some (real (foldl (\<lambda>n c. 10 * n + digit_value c) 0 s))
      else None)"

text \<open>A clause record with the given risk level and risk percentage.\<close>

definition clause_with :: "string \<Rightarrow> string \<Rightarrow> clause_record" where
  "clause_with level pct =
     \<lparr>clause_id = [], risk_level = level, risk_percent = pct, regulation = [],
      key_clauses = [], summary = []\<rparr>"

section \<open>Concrete inputs\<close>

text \<open>
  The inputs at which the examples below evaluate the program: a notifier with
  the transport enabled, a report environment with empty constant text whose date is the
  number of the day (clock readings count seconds), the session of
  the built-in administrator after a login at time 5, a run of one Low clause, and the
  two extreme transports.
\<close>

definition ex_notifier :: email_notifier where
  "ex_notifier = \<lparr>enabled = True, notification_emails = fallback_emails\<rparr>"

definition ex_report_env :: report_env where
  "ex_report_env =
     \<lparr>lit = (\<lambda>k. []), fmt_0f = (\<lambda>x. []), fmt_plain = (\<lambda>x. []),
      strftime_bdY = (\<lambda>t. str_nat (t div 86400)), str_other = (\<lambda>v. [])\<rparr>"

definition ex_admin_session :: session_state where
  "ex_admin_session =
     snd (authenticate_user builtin_users 5 Map.empty ''admin@company.com'' ''admin123'')"

definition ex_guest_session :: session_state where
  "ex_guest_session = snd (create_temp_session 5 Map.empty ''guest@example.com'')"

definition ex_results :: "clause_record list" where
  "ex_results =
     [\<lparr>clause_id = ''1'', risk_level = ''Low'', risk_percent = ''10%'', regulation = [],
       key_clauses = [], summary = []\<rparr>]"

definition transport_ok :: transport where
  "transport_ok sent m = True"

definition transport_raises :: transport where
  "transport_raises sent m = False"

definition ex_app_env :: "transport \<Rightarrow> app_env" where
  "ex_app_env yag =
     \<lparr>env_notifier = ex_notifier, env_yag = yag, env_report = ex_report_env,
      env_users = builtin_users\<rparr>"

section \<open>Theorems\<close>

lemma filter_nonempty_iff: "filter P xs \<noteq> [] \<longleftrightarrow> 0 < length (filter P xs)"
  by simp

text \<open>
  C4. The recommendation follows the stated precedence: Reject when the count of High
  records is positive; otherwise ReviewRecommended when the count of Medium records
  exceeds half of the total; otherwise Acceptable. Any list with a High record gives
  Reject, and the empty list gives Acceptable.
\<close>

theorem recommendation_precedence:
  "create_summary_insights_recommendation rs =
     (if count_level ''High'' rs > 0 then Reject
      else if real (count_level ''Medium'' rs) > 0.5 * real (length rs) then ReviewRecommended
      else Acceptable)
   \<and> ((\<exists>r \<in> set rs. risk_level r = ''High'') \<longrightarrow>
        create_summary_insights_recommendation rs = Reject)
   \<and> create_summary_insights_recommendation [] = Acceptable"
proof -
  have prec: "create_summary_insights_recommendation rs =
     (if count_level ''High'' rs > 0 then Reject
      else if real (count_level ''Medium'' rs) > 0.5 * real (length rs) then ReviewRecommended
      else Acceptable)"
    by (simp add: create_summary_insights_recommendation_def count_level_def Let_def)
  have high: "(\<exists>r \<in> set rs. risk_level r = ''High'') \<longrightarrow>
        create_summary_insights_recommendation rs = Reject"
    by (auto simp: create_summary_insights_recommendation_def Let_def filter_empty_conv)
  have empty: "create_summary_insights_recommendation [] = Acceptable"
    by (simp add: create_summary_insights_recommendation_def)
  from prec high empty show ?thesis by blast
qed

theorem recommendation_precedence_witness:
  "create_summary_insights_recommendation
     [\<lparr>clause_id = ''1'', risk_level = ''High'', risk_percent = ''80%'', regulation = ''GDPR'',
       key_clauses = [], summary = []\<rparr>,
      \<lparr>clause_id = ''2'', risk_level = ''Medium'', risk_percent = ''50%'', regulation = [],
       key_clauses = [], summary = []\<rparr>,
      \<lparr>clause_id = ''3'', risk_level = ''Medium'', risk_percent = ''55%'', regulation = [],
       key_clauses = [], summary = []\<rparr>] = Reject"
  (is "create_summary_insights_recommendation ?rs = Reject")
proof -
  have h: "\<exists>r \<in> set ?rs. risk_level r = ''High''"
    by simp
  from recommendation_precedence [of ?rs] h show ?thesis
    by blast
qed

text \<open>
  The precedence in whole numbers: the Medium branch is taken exactly when twice the
  Medium count exceeds the total.
\<close>

lemma recommendation_integer_form:
  "create_summary_insights_recommendation rs =
     (if count_level ''High'' rs > 0 then Reject
      else if 2 * count_level ''Medium'' rs > length rs then ReviewRecommended
      else Acceptable)"
proof -
  have "real (count_level ''Medium'' rs) > real (length rs) * 0.5
        \<longleftrightarrow> 2 * count_level ''Medium'' rs > length rs"
    by (simp add: field_simps) linarith
  then show ?thesis
    by (simp add: create_summary_insights_recommendation_def count_level_def Let_def)
qed

lemma review_scenario:
  "create_summary_insights_recommendation
     (map (\<lambda>l. \<lparr>clause_id = [], risk_level = l, risk_percent = [], regulation = [],
                 key_clauses = [], summary = []\<rparr>)
        [''Medium'', ''Medium'', ''Medium'', ''Low'', ''Low'']) = ReviewRecommended"
  by (simp add: recommendation_integer_form count_level_def)

subsection \<open>Recipients\<close>

text \<open>
  C9, as the claim states it, fails: an override that is a non-empty string with only
  blank entries (a single comma) resolves to the empty list, not to the fallback list.
\<close>

theorem recipients_empty_counterexample:
  "get_notification_emails [''NOTIFICATION_EMAILS'' \<mapsto> '','']  = []"
  by (simp add: get_notification_emails_def getenv_def strip_def is_space_def)

text \<open>
  C9, amended. When the override is absent or the empty string, the resolved list is
  the fallback list; a non-empty override string resolves to its stripped non-blank
  comma-separated entries. So the resolved list is the fallback list exactly when the
  override is absent, empty, or spells out the fallback addresses itself, and it is
  empty exactly when the override is a non-empty string all of whose entries are blank.
\<close>

theorem recipients_resolution:
  "(env ''NOTIFICATION_EMAILS'' = None \<or> env ''NOTIFICATION_EMAILS'' = Some [] \<longrightarrow>
      get_notification_emails env = fallback_emails)
   \<and> (\<forall>s. env ''NOTIFICATION_EMAILS'' = Some s \<and> s \<noteq> [] \<longrightarrow>
      get_notification_emails env = override_entries s)
   \<and> (get_notification_emails env = fallback_emails \<longleftrightarrow>
      (env ''NOTIFICATION_EMAILS'' = None \<or> env ''NOTIFICATION_EMAILS'' = Some []
       \<or> (\<exists>s. env ''NOTIFICATION_EMAILS'' = Some s \<and> override_entries s = fallback_emails)))
   \<and> (get_notification_emails env = [] \<longleftrightarrow>
      (\<exists>s. env ''NOTIFICATION_EMAILS'' = Some s \<and> s \<noteq> [] \<and>
           (\<forall>e \<in> set (split_on CHR '','' s). strip e = [])))"
proof -
  have fb: "fallback_emails \<noteq> []"
    by (simp add: fallback_emails_def)
  have entries_empty: "override_entries s = [] \<longleftrightarrow> (\<forall>e \<in> set (split_on CHR '','' s). strip e = [])"
    for s
    by (simp add: override_entries_def filter_empty_conv)
  show ?thesis
  proof (cases "env ''NOTIFICATION_EMAILS''")
    case None
    then show ?thesis
      using fb by (simp add: get_notification_emails_def getenv_def)
  next
    case (Some s)
    show ?thesis
    proof (cases "s = []")
      case True
      with Some show ?thesis
        using fb by (simp add: get_notification_emails_def getenv_def)
    next
      case False
      have "get_notification_emails env = override_entries s"
        using Some False
        by (simp add: get_notification_emails_def getenv_def override_entries_def)
      with Some False show ?thesis
        using entries_empty [of s] by simp
    qed
  qed
qed

theorem recipients_resolution_witness:
  "get_notification_emails [''NOTIFICATION_EMAILS'' \<mapsto> ''a@x.org, b@y.org ,''] =
     [''a@x.org'', ''b@y.org'']
   \<and> get_notification_emails Map.empty = fallback_emails"
proof -
  have ov: "get_notification_emails [''NOTIFICATION_EMAILS'' \<mapsto> ''a@x.org, b@y.org ,''] =
      override_entries ''a@x.org, b@y.org ,''"
    using recipients_resolution [of "[''NOTIFICATION_EMAILS'' \<mapsto> ''a@x.org, b@y.org ,'']"]
    by simp
  have ent: "override_entries ''a@x.org, b@y.org ,'' = [''a@x.org'', ''b@y.org'']"
    by (simp add: override_entries_def strip_def is_space_def)
  have fb: "get_notification_emails Map.empty = fallback_emails"
    using recipients_resolution [of Map.empty] by simp
  from ov ent fb show ?thesis by simp
qed

text \<open>
  Two overrides at the edges: one that spells out the fallback addresses, and one that
  holds only a no-break space (code point 160), which \<^verbatim>\<open>strip\<close> removes.
\<close>

lemma recipients_spelled_out_example:
  "get_notification_emails
     [''NOTIFICATION_EMAILS'' \<mapsto> ''admin@company.com,compliance@company.com,legal@company.com'']
   = fallback_emails"
  by (simp add: get_notification_emails_def getenv_def strip_def is_space_def
      fallback_emails_def)

lemma recipients_no_break_space_example:
  "get_notification_emails [''NOTIFICATION_EMAILS'' \<mapsto> [CHR 0xA0]] = []"
  by (simp add: get_notification_emails_def getenv_def strip_def is_space_def)

subsection \<open>Session invariant\<close>

lemma session_inv_empty: "session_inv Map.empty"
  by (simp add: session_inv_def kind_of_def is_authenticated_def ss_get_def identity_null_def
      identity_field_def)

lemma session_inv_initialize: "session_inv s \<Longrightarrow> session_inv (initialize_auth_session s)"
  by (auto simp: session_inv_def kind_of_def is_authenticated_def is_temp_session_def ss_get_def
      identity_null_def identity_set_def identity_field_def initialize_auth_session_def
      init_key_def split: option.splits if_splits)

lemma session_inv_login:
  "session_inv s \<Longrightarrow> session_inv (snd (authenticate_user users now s email pw))"
  by (auto simp: session_inv_def kind_of_def is_authenticated_def is_temp_session_def ss_get_def
      identity_null_def identity_set_def identity_field_def authenticate_user_def
      split: option.splits if_splits)

lemma session_inv_temp: "session_inv (snd (create_temp_session now s email))"
  by (simp add: session_inv_def kind_of_def is_authenticated_def is_temp_session_def ss_get_def
      identity_set_def identity_field_def create_temp_session_def)

lemma session_inv_logout: "session_inv (logout_user s)"
  by (simp add: session_inv_def kind_of_def is_authenticated_def ss_get_def
      identity_null_def identity_field_def logout_user_def)

lemma session_inv_step: "session_inv s \<Longrightarrow> session_inv (apply_session_op users s op)"
  by (cases op)
    (simp_all add: session_inv_initialize session_inv_login session_inv_temp session_inv_logout)

lemma session_inv_foldl:
  "session_inv s \<Longrightarrow> session_inv (foldl (apply_session_op users) s ops)"
  by (induction ops arbitrary: s) (simp_all add: session_inv_step)

text \<open>
  C3. Starting from the empty session store of a fresh context, the state after every
  sequence of session operations (initialize, login, start of a temporary session,
  logout) satisfies the invariant: the kind is Unauthenticated exactly when the identity
  fields (email, name, role) are null, and they are all set otherwise; and every single
  operation preserves the invariant from any state that satisfies it.
\<close>

theorem session_invariant:
  "session_inv (foldl (apply_session_op users) Map.empty ops)
   \<and> (kind_of (foldl (apply_session_op users) Map.empty ops) = Unauthenticated
        \<longleftrightarrow> identity_null (foldl (apply_session_op users) Map.empty ops))
   \<and> (session_inv s \<longrightarrow> session_inv (apply_session_op users s op))"
proof -
  let ?s = "foldl (apply_session_op users) Map.empty ops"
  have inv: "session_inv ?s"
    by (rule session_inv_foldl [OF session_inv_empty])
  have iff: "kind_of ?s = Unauthenticated \<longleftrightarrow> identity_null ?s"
    using inv by (auto simp: session_inv_def identity_null_def identity_set_def)
  from inv iff session_inv_step show ?thesis
    by blast
qed

theorem session_invariant_witness:
  "kind_of (foldl (apply_session_op (VALID_USERS Map.empty)) Map.empty
      [Initialize, Login ''admin@company.com'' ''admin123'' 7]) = Full
   \<and> session_inv (foldl (apply_session_op (VALID_USERS Map.empty)) Map.empty
      [Initialize, Login ''admin@company.com'' ''admin123'' 7])
   \<and> session_inv (apply_session_op (VALID_USERS Map.empty)
        (foldl (apply_session_op (VALID_USERS Map.empty)) Map.empty
          [Initialize, Login ''admin@company.com'' ''admin123'' 7]) Logout)"
proof -
  let ?u = "VALID_USERS Map.empty"
  let ?ops = "[Initialize, Login ''admin@company.com'' ''admin123'' 7]"
  let ?s = "foldl (apply_session_op ?u) Map.empty ?ops"
  have k: "kind_of ?s = Full"
    by (simp add: VALID_USERS_def builtin_users_def getenv_def authenticate_user_def
        initialize_auth_session_def init_key_def kind_of_def is_authenticated_def
        is_temp_session_def ss_get_def)
  have inv: "session_inv ?s"
    using session_invariant [of ?u ?ops] by blast
  have "session_inv (apply_session_op ?u ?s Logout)"
    using session_invariant [of ?u ?ops ?s Logout] inv by blast
  with k inv show ?thesis by blast
qed

subsection \<open>Temporary sessions\<close>

text \<open>
  C6. Submitting the temporary-session form succeeds exactly when the supplied email is
  non-empty and contains the character @. On success the session becomes Temporary with
  the email, the display name "Guest (" + email + ")", the role Guest and the login
  time; on every other input the validation error is shown and the session store is
  unchanged.
\<close>

theorem temp_session_validation:
  "((\<exists>m. shown (temp_form_submit now w e) = shown w @ [St_success m])
      \<longleftrightarrow> (e \<noteq> [] \<and> CHR ''@'' \<in> set e))
   \<and> (e \<noteq> [] \<and> CHR ''@'' \<in> set e \<longrightarrow>
        kind_of (session (temp_form_submit now w e)) = Temporary
        \<and> session (temp_form_submit now w e) K_user_email = Some (PStr e)
        \<and> session (temp_form_submit now w e) K_user_name = Some (PStr (''Guest ('' @ e @ '')''))
        \<and> session (temp_form_submit now w e) K_user_role = Some (PStr ''Guest'')
        \<and> session (temp_form_submit now w e) K_login_time = Some (PTime now))
   \<and> (\<not> (e \<noteq> [] \<and> CHR ''@'' \<in> set e) \<longrightarrow>
        session (temp_form_submit now w e) = session w
        \<and> outbox (temp_form_submit now w e) = outbox w
        \<and> shown (temp_form_submit now w e) = shown w @ [St_error ''Please enter valid email''])"
proof (cases "e \<noteq> [] \<and> CHR ''@'' \<in> set e")
  case True
  then show ?thesis
    by (simp add: temp_form_submit_def st_show_def create_temp_session_def kind_of_def
        is_authenticated_def is_temp_session_def ss_get_def)
next
  case False
  then have "temp_form_submit now w e = st_show (St_error ''Please enter valid email'') w"
    by (auto simp: temp_form_submit_def)
  with False show ?thesis
    by (auto simp: st_show_def)
qed

theorem temp_session_validation_witness:
  "kind_of (session (temp_form_submit 3
      \<lparr>session = Map.empty, outbox = [], shown = []\<rparr> ''guest@example.com'')) = Temporary
   \<and> session (temp_form_submit 3
      \<lparr>session = Map.empty, outbox = [], shown = []\<rparr> ''guest.example.com'') = Map.empty"
proof -
  let ?w = "\<lparr>session = Map.empty, outbox = [], shown = []\<rparr>"
  have ok: "''guest@example.com'' \<noteq> [] \<and> CHR ''@'' \<in> set ''guest@example.com''"
    by simp
  have bad: "\<not> (''guest.example.com'' \<noteq> [] \<and> CHR ''@'' \<in> set ''guest.example.com'')"
    by simp
  have a: "kind_of (session (temp_form_submit 3 ?w ''guest@example.com'')) = Temporary"
    using temp_session_validation [of 3 ?w "''guest@example.com''"] ok by blast
  have b: "session (temp_form_submit 3 ?w ''guest.example.com'') = session ?w"
    using temp_session_validation [of 3 ?w "''guest.example.com''"] bad by blast
  from a b show ?thesis by simp
qed

subsection \<open>The notification gate\<close>

lemma check_user_session_kind: "check_user_session s \<longleftrightarrow> kind_of s = Full"
  by (simp add: check_user_session_def kind_of_def is_authenticated_def is_temp_session_def)

text \<open>
  C2. In every session whose kind is not Full (unauthenticated or temporary), whatever
  the run contains, the notification operation returns false and the transport is not
  invoked: the list of its invocations is unchanged.
\<close>

theorem notification_blocked_unless_full:
  "kind_of s \<noteq> Full \<longrightarrow>
     send_analysis_notification self yag renv s now1 now2 sent results contract_name
       = (False, sent)"
  by (simp add: send_analysis_notification_def check_user_session_kind)

theorem notification_blocked_unless_full_witness:
  "kind_of ex_guest_session = Temporary
   \<and> send_analysis_notification ex_notifier transport_ok ex_report_env ex_guest_session 5 5 []
        (Some ex_results) ''c.pdf'' = (False, [])"
proof -
  have k: "kind_of ex_guest_session = Temporary"
    by (simp add: ex_guest_session_def create_temp_session_def kind_of_def is_authenticated_def
        is_temp_session_def ss_get_def)
  then have "kind_of ex_guest_session \<noteq> Full"
    by simp
  with k notification_blocked_unless_full [of ex_guest_session] show ?thesis
    by blast
qed

text \<open>
  C10. In every session state, also a Full one with the transport enabled, the
  notification operation called with an empty or null list of results returns false and
  does not invoke the transport.
\<close>

theorem notification_empty_results:
  "results = None \<or> results = Some [] \<Longrightarrow>
     send_analysis_notification self yag renv s now1 now2 sent results contract_name
       = (False, sent)"
  by (auto simp: send_analysis_notification_def generate_analysis_summary_def)

theorem notification_empty_results_witness:
  "kind_of ex_admin_session = Full
   \<and> send_analysis_notification ex_notifier transport_ok ex_report_env ex_admin_session 5 5 []
        (Some []) ''c.pdf'' = (False, [])"
proof -
  have k: "kind_of ex_admin_session = Full"
    by (simp add: ex_admin_session_def authenticate_user_def builtin_users_def kind_of_def
        is_authenticated_def is_temp_session_def ss_get_def)
  have e: "(Some [] :: clause_record list option) = None
           \<or> (Some [] :: clause_record list option) = Some []"
    by simp
  from k notification_empty_results [OF e] show ?thesis
    by blast
qed

subsection \<open>Sending and the script runs\<close>

lemma summary_nonempty:
  "generate_analysis_summary renv s now1 now2 results contract_name = Some html \<Longrightarrow> html \<noteq> []"
  by (auto simp: generate_analysis_summary_def Let_def split: option.splits if_splits)

lemma summary_some:
  "check_user_session s \<Longrightarrow> rs \<noteq> [] \<Longrightarrow>
     \<exists>html. generate_analysis_summary renv s now1 now2 (Some rs) contract_name = Some html"
  by (auto simp: generate_analysis_summary_def Let_def split: option.splits if_splits)

lemma send_outbox_cases:
  "snd (send_analysis_notification self yag renv s now1 now2 sent results contract_name) = sent
   \<or> (\<exists>m. snd (send_analysis_notification self yag renv s now1 now2 sent results contract_name)
          = sent @ [m])"
  by (auto simp: send_analysis_notification_def Let_def split: option.splits if_splits)

lemma send_eligible:
  assumes "enabled self" "check_user_session s" "rs \<noteq> []"
  shows "\<exists>m. send_analysis_notification self yag renv s now1 now2 sent (Some rs) contract_name
           = (yag sent m, sent @ [m])"
proof -
  obtain html where h: "generate_analysis_summary renv s now1 now2 (Some rs) contract_name = Some html"
    using summary_some [OF assms(2,3)] by blast
  then have "html \<noteq> []" by (rule summary_nonempty)
  with h assms show ?thesis
    by (auto simp: send_analysis_notification_def Let_def)
qed


lemma run_complete_init [simp]:
  "run_complete (initialize_session_state s) = run_complete s"
  by (simp add: run_complete_def initialize_session_state_def initialize_auth_session_def
      init_key_def ss_get_def split: option.splits)

lemma run_complete_login [simp]:
  "run_complete (snd (authenticate_user users now s email pw)) = run_complete s"
  by (simp add: run_complete_def authenticate_user_def ss_get_def split: option.splits)

lemma run_complete_temp [simp]:
  "run_complete (snd (create_temp_session now s email)) = run_complete s"
  by (simp add: run_complete_def create_temp_session_def ss_get_def)

lemma run_complete_logout [simp]:
  "run_complete (logout_user s) = run_complete s"
  by (simp add: run_complete_def logout_user_def ss_get_def)

lemma login_form_submit_outbox [simp]:
  "outbox (login_form_submit users now w email pw) = outbox w"
  by (simp add: login_form_submit_def st_show_def split: prod.splits)

lemma login_form_submit_complete [simp]:
  "run_complete (session (login_form_submit users now w email pw)) = run_complete (session w)"
proof -
  have "session (login_form_submit users now w email pw) = session w
        \<or> session (login_form_submit users now w email pw)
            = snd (authenticate_user users now (session w) email pw)"
    by (auto simp: login_form_submit_def st_show_def split: prod.splits)
  then show ?thesis
    by (elim disjE) simp_all
qed

lemma temp_form_submit_outbox [simp]:
  "outbox (temp_form_submit now w e) = outbox w"
  by (simp add: temp_form_submit_def st_show_def)

lemma temp_form_submit_complete [simp]:
  "run_complete (session (temp_form_submit now w e)) = run_complete (session w)"
  by (simp add: temp_form_submit_def st_show_def)

lemma main_when_complete:
  assumes "run_complete (session w)" "ev \<noteq> Analyze_another_click"
  shows "outbox (main aenv w ev) = outbox w \<and> run_complete (session (main aenv w ev))"
  using assms by (cases ev) (simp_all add: main_def Let_def)

lemma analyze_contract_outbox:
  assumes "analyze_contract aenv now1 now2 outcome w f = (r, w')"
  shows "outbox w' = outbox w \<or> (\<exists>m. outbox w' = outbox w @ [m] \<and> results_truthy r)"
proof (cases outcome)
  case (Analyzer_raises e)
  with assms show ?thesis
    by (auto simp: analyze_contract_def st_show_def)
next
  case (Analyzer_returns res)
  show ?thesis
  proof (cases "results_truthy res")
    case False
    with assms Analyzer_returns show ?thesis
      by (auto simp: analyze_contract_def st_show_def)
  next
    case True
    obtain b sent' where snd_eq:
      "send_analysis_notification (env_notifier aenv) (env_yag aenv) (env_report aenv)
         (session w) now1 now2 (outbox w) res f = (b, sent')"
      by (cases "send_analysis_notification (env_notifier aenv) (env_yag aenv) (env_report aenv)
         (session w) now1 now2 (outbox w) res f") blast
    have ob: "outbox w' = sent'" and r: "r = res"
      using assms Analyzer_returns True snd_eq
      by (auto simp: analyze_contract_def Let_def st_show_def split: if_splits)
    have "sent' = outbox w \<or> (\<exists>m. sent' = outbox w @ [m])"
      using send_outbox_cases [of "env_notifier aenv" "env_yag aenv" "env_report aenv"
          "session w" now1 now2 "outbox w" res f] snd_eq
      by simp
    with ob r True show ?thesis
      by auto
  qed
qed

lemma main_outbox_step:
  assumes "ev \<noteq> Analyze_another_click"
  shows "outbox (main aenv w ev) = outbox w
         \<or> ((\<exists>m. outbox (main aenv w ev) = outbox w @ [m])
             \<and> run_complete (session (main aenv w ev)))"
proof (cases ev)
  case (Submit_click f outcome now1 now2)
  let ?w0 = "w\<lparr>session := initialize_session_state (session w)\<rparr>"
  let ?w1 = "st_show (St_success (''Uploaded: '' @ f))
               (?w0\<lparr>session := (session ?w0)(K_contract_name \<mapsto> PStr f)\<rparr>)"
  obtain r w2 where ac: "analyze_contract aenv now1 now2 outcome ?w1 f = (r, w2)"
    by (cases "analyze_contract aenv now1 now2 outcome ?w1 f") blast
  have ob1: "outbox ?w1 = outbox w"
    by (simp add: st_show_def)
  from analyze_contract_outbox [OF ac] ob1
  have w2: "outbox w2 = outbox w \<or> (\<exists>m. outbox w2 = outbox w @ [m] \<and> results_truthy r)"
    by simp
  show ?thesis
  proof (cases "is_authenticated (session ?w0) \<and> \<not> run_complete (session ?w0)")
    case False
    with Submit_click show ?thesis
      by (auto simp: main_def Let_def)
  next
    case True
    with Submit_click ac have m: "main aenv w ev =
        (case r of None \<Rightarrow> w2
         | Some rs \<Rightarrow> if rs \<noteq> []
             then w2\<lparr>session := (session w2)
                    (K_analysis_results \<mapsto> PResults rs, K_analysis_complete \<mapsto> PBool True)\<rparr>
             else w2)"
      by (simp add: main_def Let_def)
    from w2 show ?thesis
    proof
      assume "outbox w2 = outbox w"
      with m show ?thesis
        by (simp split: option.splits)
    next
      assume "\<exists>m. outbox w2 = outbox w @ [m] \<and> results_truthy r"
      with m show ?thesis
        by (auto simp: results_truthy_def run_complete_def ss_get_def split: option.splits)
    qed
  qed
qed (simp_all add: main_def Let_def)

lemma run_when_complete:
  "run_complete (session w) \<Longrightarrow> Analyze_another_click \<notin> set evs \<Longrightarrow>
     outbox (foldl (main aenv) w evs) = outbox w"
proof (induction evs arbitrary: w)
  case Nil
  then show ?case by simp
next
  case (Cons ev evs)
  then have ev: "ev \<noteq> Analyze_another_click" and evs: "Analyze_another_click \<notin> set evs"
    by auto
  from main_when_complete [OF Cons.prems(1) ev, of aenv]
  have "outbox (main aenv w ev) = outbox w" and "run_complete (session (main aenv w ev))"
    by simp_all
  with Cons.IH [OF _ evs, of "main aenv w ev"] show ?case
    by simp
qed

lemma run_outbox_bound:
  "Analyze_another_click \<notin> set evs \<Longrightarrow>
     length (outbox (foldl (main aenv) w evs)) \<le> length (outbox w) + 1"
proof (induction evs arbitrary: w)
  case Nil
  then show ?case by simp
next
  case (Cons ev evs)
  then have ev: "ev \<noteq> Analyze_another_click" and evs: "Analyze_another_click \<notin> set evs"
    by auto
  from main_outbox_step [OF ev, of aenv w] show ?case
  proof
    assume same: "outbox (main aenv w ev) = outbox w"
    with Cons.IH [OF evs, of "main aenv w ev"] show ?case
      by simp
  next
    assume "(\<exists>m. outbox (main aenv w ev) = outbox w @ [m])
            \<and> run_complete (session (main aenv w ev))"
    then obtain m where ob: "outbox (main aenv w ev) = outbox w @ [m]"
      and c: "run_complete (session (main aenv w ev))"
      by blast
    from run_when_complete [OF c evs, of aenv] ob show ?case
      by simp
  qed
qed


lemma is_authenticated_init [simp]:
  "is_authenticated (initialize_session_state s) = is_authenticated s"
  by (simp add: is_authenticated_def initialize_session_state_def initialize_auth_session_def
      init_key_def ss_get_def split: option.splits)

lemma check_user_session_init [simp]:
  "check_user_session (initialize_session_state s) = check_user_session s"
  by (simp add: check_user_session_def initialize_session_state_def initialize_auth_session_def
      init_key_def ss_get_def split: option.splits)

lemma check_user_session_upd [simp]:
  "k \<noteq> K_authenticated \<Longrightarrow> k \<noteq> K_temp_session \<Longrightarrow>
     check_user_session (s(k \<mapsto> v)) = check_user_session s"
  by (simp add: check_user_session_def ss_get_def)

lemma check_user_session_authenticated:
  "check_user_session s \<Longrightarrow> is_authenticated s"
  by (simp add: check_user_session_def is_authenticated_def split: if_splits)

lemma main_submit_transport_raises:
  assumes full: "check_user_session (session w)"
    and idle: "\<not> run_complete (session w)"
    and en: "enabled (env_notifier aenv)"
    and rs: "rs \<noteq> []"
    and raises: "\<forall>m. \<not> env_yag aenv (outbox w) m"
  shows "\<exists>m. main aenv w (Submit_click f (Analyzer_returns (Some rs)) now1 now2) =
           \<lparr>session = (initialize_session_state (session w))
                (K_contract_name \<mapsto> PStr f,
                 K_analysis_results \<mapsto> PResults rs,
                 K_analysis_complete \<mapsto> PBool True),
             outbox = outbox w @ [m],
             shown = shown w @
               [St_success (''Uploaded: '' @ f), St_success ''Analysis complete!'',
                St_warning '' Analysis complete but email notifications failed to send'']\<rparr>"
proof -
  let ?s0 = "initialize_session_state (session w)"
  let ?s1 = "?s0(K_contract_name \<mapsto> PStr f)"
  have c1: "check_user_session ?s1"
    using full by simp
  obtain m where snd_eq:
    "send_analysis_notification (env_notifier aenv) (env_yag aenv) (env_report aenv) ?s1
        now1 now2 (outbox w) (Some rs) f = (env_yag aenv (outbox w) m, outbox w @ [m])"
    using send_eligible [OF en c1 rs] by blast
  with raises have snd_eq': 
    "send_analysis_notification (env_notifier aenv) (env_yag aenv) (env_report aenv) ?s1
        now1 now2 (outbox w) (Some rs) f = (False, outbox w @ [m])"
    by simp
  have auth: "is_authenticated ?s0"
    using full by (simp add: check_user_session_authenticated)
  have "main aenv w (Submit_click f (Analyzer_returns (Some rs)) now1 now2) =
           \<lparr>session = ?s1(K_analysis_results \<mapsto> PResults rs,
                          K_analysis_complete \<mapsto> PBool True),
             outbox = outbox w @ [m],
             shown = shown w @
               [St_success (''Uploaded: '' @ f), St_success ''Analysis complete!'',
                St_warning '' Analysis complete but email notifications failed to send'']\<rparr>"
    using auth idle rs snd_eq'
    by (simp add: main_def Let_def analyze_contract_def results_truthy_def st_show_def)
  then show ?thesis
    by blast
qed

subsection \<open>Facts about the concrete inputs\<close>

lemma ex_admin_full: "check_user_session ex_admin_session"
  by (simp add: ex_admin_session_def authenticate_user_def builtin_users_def
      check_user_session_def ss_get_def)

lemma ex_admin_idle: "\<not> run_complete ex_admin_session"
  by (simp add: ex_admin_session_def authenticate_user_def builtin_users_def run_complete_def
      ss_get_def)

lemma ex_admin_flag_absent: "ex_admin_session K_email_sent = None"
  by (simp add: ex_admin_session_def authenticate_user_def builtin_users_def)

lemma ex_results_nonempty: "ex_results \<noteq> []"
  by (simp add: ex_results_def)

lemma ex_notifier_enabled: "enabled ex_notifier"
  by (simp add: ex_notifier_def)

text \<open>
  C1, as the claim states it, fails: the notification operation has no guard on the
  flag. In a Full session with the transport enabled, a second call on the same results,
  made after the flag \<^verbatim>\<open>email_sent\<close> was set, invokes the transport a second time.
\<close>

theorem notification_twice_counterexample:
  "length (snd (send_analysis_notification ex_notifier transport_ok ex_report_env
      (ex_admin_session(K_email_sent \<mapsto> PBool True)) 6 6
      (snd (send_analysis_notification ex_notifier transport_ok ex_report_env
         ex_admin_session 5 5 [] (Some ex_results) ''c.pdf''))
      (Some ex_results) ''c.pdf'')) = 2"
proof -
  have c1: "check_user_session (ex_admin_session(K_email_sent \<mapsto> PBool True))"
    using ex_admin_full by simp
  obtain m1 where first:
    "send_analysis_notification ex_notifier transport_ok ex_report_env ex_admin_session 5 5 []
       (Some ex_results) ''c.pdf'' = (transport_ok [] m1, [] @ [m1])"
    using send_eligible [OF ex_notifier_enabled ex_admin_full ex_results_nonempty] by blast
  obtain m2 where second:
    "send_analysis_notification ex_notifier transport_ok ex_report_env
       (ex_admin_session(K_email_sent \<mapsto> PBool True)) 6 6 [m1] (Some ex_results) ''c.pdf''
     = (transport_ok [m1] m2, [m1] @ [m2])"
    using send_eligible [OF ex_notifier_enabled c1 ex_results_nonempty] by blast
  from first have "snd (send_analysis_notification ex_notifier transport_ok ex_report_env
         ex_admin_session 5 5 [] (Some ex_results) ''c.pdf'') = [m1]"
    by simp
  with second show ?thesis
    by simp
qed

text \<open>
  C1, amended. The notification operation itself sends on every eligible call (Full
  session, transport enabled, non-empty results), whatever the flag says. The bound is
  kept by the orchestration: over every sequence of script runs that does not contain
  the "analyze another" action, the transport is invoked at most once, because the send
  is attempted only in the submit handler and that handler is unreachable once the
  analysis is complete.
\<close>

theorem notification_once_per_run:
  "(Analyze_another_click \<notin> set evs \<longrightarrow>
      length (outbox (foldl (main aenv) w evs)) \<le> length (outbox w) + 1)
   \<and> (enabled self \<and> check_user_session s \<and> rs \<noteq> [] \<longrightarrow>
      length (snd (send_analysis_notification self yag renv s now1 now2 sent (Some rs)
        contract_name)) = length sent + 1)"
proof -
  have a: "Analyze_another_click \<notin> set evs \<longrightarrow>
      length (outbox (foldl (main aenv) w evs)) \<le> length (outbox w) + 1"
    using run_outbox_bound by blast
  have b: "length (snd (send_analysis_notification self yag renv s now1 now2 sent (Some rs)
        contract_name)) = length sent + 1"
    if h: "enabled self" "check_user_session s" "rs \<noteq> []"
  proof -
    obtain m where "send_analysis_notification self yag renv s now1 now2 sent (Some rs)
        contract_name = (yag sent m, sent @ [m])"
      using send_eligible [OF h] by blast
    then show ?thesis by simp
  qed
  from a b show ?thesis by blast
qed

theorem notification_once_per_run_witness:
  "length (outbox (foldl (main (ex_app_env transport_ok))
      \<lparr>session = Map.empty, outbox = [], shown = []\<rparr>
      [Login_submit ''admin@company.com'' ''admin123'' 1,
       Submit_click ''c.pdf'' (Analyzer_returns (Some ex_results)) 2 2,
       Redraw, Redraw])) \<le> 1"
proof -
  let ?evs = "[Login_submit ''admin@company.com'' ''admin123'' 1,
       Submit_click ''c.pdf'' (Analyzer_returns (Some ex_results)) 2 2, Redraw, Redraw]"
  let ?w = "\<lparr>session = Map.empty, outbox = [], shown = []\<rparr>"
  have h: "Analyze_another_click \<notin> set ?evs"
    by simp
  have "length (outbox (foldl (main (ex_app_env transport_ok)) ?w ?evs))
          \<le> length (outbox ?w) + 1"
    using notification_once_per_run [of ?evs "ex_app_env transport_ok" ?w] h by blast
  then show ?thesis
    by simp
qed

lemma ex_app_env_simps [simp]:
  "env_notifier (ex_app_env yag) = ex_notifier"
  "env_yag (ex_app_env yag) = yag"
  "env_report (ex_app_env yag) = ex_report_env"
  "env_users (ex_app_env yag) = builtin_users"
  by (simp_all add: ex_app_env_def)

lemma email_sent_after_init:
  "ss_get (initialize_session_state s) K_email_sent (PBool False)
     = ss_get s K_email_sent (PBool False)"
  by (simp add: initialize_session_state_def initialize_auth_session_def init_key_def ss_get_def
      split: option.splits)

text \<open>
  C5, as the claim states it, fails: when the transport raises, the flag
  \<^verbatim>\<open>email_sent\<close> is not set. Here the administrator submits a file, the transport
  is invoked once and raises, and the flag read afterwards is false.
\<close>

theorem failed_send_flag_counterexample:
  "ss_get (session (main (ex_app_env transport_raises)
       \<lparr>session = ex_admin_session, outbox = [], shown = []\<rparr>
       (Submit_click ''c.pdf'' (Analyzer_returns (Some ex_results)) 6 6)))
     K_email_sent (PBool False) = PBool False
   \<and> length (outbox (main (ex_app_env transport_raises)
       \<lparr>session = ex_admin_session, outbox = [], shown = []\<rparr>
       (Submit_click ''c.pdf'' (Analyzer_returns (Some ex_results)) 6 6))) = 1"
proof -
  let ?w = "\<lparr>session = ex_admin_session, outbox = [], shown = []\<rparr>"
  let ?ev = "Submit_click ''c.pdf'' (Analyzer_returns (Some ex_results)) 6 6"
  have full: "check_user_session (session ?w)"
    using ex_admin_full by simp
  have idle: "\<not> run_complete (session ?w)"
    using ex_admin_idle by simp
  have en: "enabled (env_notifier (ex_app_env transport_raises))"
    using ex_notifier_enabled by simp
  have raises: "\<forall>m. \<not> env_yag (ex_app_env transport_raises) (outbox ?w) m"
    by (simp add: transport_raises_def)
  obtain m where eq: "main (ex_app_env transport_raises) ?w ?ev =
      \<lparr>session = (initialize_session_state (session ?w))
           (K_contract_name \<mapsto> PStr ''c.pdf'',
            K_analysis_results \<mapsto> PResults ex_results,
            K_analysis_complete \<mapsto> PBool True),
        outbox = outbox ?w @ [m],
        shown = shown ?w @
          [St_success (''Uploaded: '' @ ''c.pdf''), St_success ''Analysis complete!'',
           St_warning '' Analysis complete but email notifications failed to send'']\<rparr>"
    using main_submit_transport_raises [OF full idle en ex_results_nonempty raises]
    by blast
  have "ss_get ex_admin_session K_email_sent (PBool False) = PBool False"
    using ex_admin_flag_absent by (simp add: ss_get_def)
  then have flag: "ss_get (initialize_session_state (session ?w)) K_email_sent (PBool False)
      = PBool False"
    by (simp add: email_sent_after_init)
  have "ss_get (session (main (ex_app_env transport_raises) ?w ?ev)) K_email_sent (PBool False)
      = ss_get (initialize_session_state (session ?w)) K_email_sent (PBool False)"
    by (simp add: eq ss_get_def)
  with flag eq show ?thesis
    by simp
qed

text \<open>
  C5, amended. When the transport raises during the send of a submitted run (Full
  session, transport enabled, the analyser returned a non-empty list), the error is
  caught: the run completes (the results are stored and the analysis is marked
  complete), the transport was invoked once, the last message shown is the warning, and
  the flag \<^verbatim>\<open>email_sent\<close> keeps the value it had (it is set only by a successful
  send). The failed send is still not retried: no later script run without the "analyze
  another" action invokes the transport.
\<close>

theorem transport_failure_handling:
  assumes "check_user_session (session w)"
    and "\<not> run_complete (session w)"
    and "enabled (env_notifier aenv)"
    and "rs \<noteq> []"
    and "\<forall>m. \<not> env_yag aenv (outbox w) m"
  shows "session (main aenv w (Submit_click f (Analyzer_returns (Some rs)) now1 now2))
           K_analysis_complete = Some (PBool True)
    \<and> session (main aenv w (Submit_click f (Analyzer_returns (Some rs)) now1 now2))
           K_analysis_results = Some (PResults rs)
    \<and> length (outbox (main aenv w (Submit_click f (Analyzer_returns (Some rs)) now1 now2)))
         = length (outbox w) + 1
    \<and> last (shown (main aenv w (Submit_click f (Analyzer_returns (Some rs)) now1 now2)))
         = St_warning '' Analysis complete but email notifications failed to send''
    \<and> ss_get (session (main aenv w (Submit_click f (Analyzer_returns (Some rs)) now1 now2)))
         K_email_sent (PBool False) = ss_get (session w) K_email_sent (PBool False)
    \<and> (\<forall>evs. Analyze_another_click \<notin> set evs \<longrightarrow>
         outbox (foldl (main aenv)
           (main aenv w (Submit_click f (Analyzer_returns (Some rs)) now1 now2)) evs)
         = outbox (main aenv w (Submit_click f (Analyzer_returns (Some rs)) now1 now2)))"
proof -
  let ?w' = "main aenv w (Submit_click f (Analyzer_returns (Some rs)) now1 now2)"
  obtain m where eq: "?w' =
      \<lparr>session = (initialize_session_state (session w))
           (K_contract_name \<mapsto> PStr f,
            K_analysis_results \<mapsto> PResults rs,
            K_analysis_complete \<mapsto> PBool True),
        outbox = outbox w @ [m],
        shown = shown w @
          [St_success (''Uploaded: '' @ f), St_success ''Analysis complete!'',
           St_warning '' Analysis complete but email notifications failed to send'']\<rparr>"
    using main_submit_transport_raises [OF assms] by blast
  have c: "session ?w' K_analysis_complete = Some (PBool True)"
    by (simp add: eq)
  have r: "session ?w' K_analysis_results = Some (PResults rs)"
    by (simp add: eq)
  have ob: "length (outbox ?w') = length (outbox w) + 1"
    by (simp add: eq)
  have sh: "last (shown ?w') = St_warning '' Analysis complete but email notifications failed to send''"
    by (simp add: eq)
  have "ss_get (session ?w') K_email_sent (PBool False)
      = ss_get (initialize_session_state (session w)) K_email_sent (PBool False)"
    by (simp add: eq ss_get_def)
  then have fl: "ss_get (session ?w') K_email_sent (PBool False)
      = ss_get (session w) K_email_sent (PBool False)"
    by (simp add: email_sent_after_init)
  have "run_complete (session ?w')"
    using c by (simp add: run_complete_def ss_get_def)
  then have nr: "\<forall>evs. Analyze_another_click \<notin> set evs \<longrightarrow>
      outbox (foldl (main aenv) ?w' evs) = outbox ?w'"
    using run_when_complete by blast
  from c r ob sh fl nr show ?thesis
    by blast
qed

theorem transport_failure_handling_witness:
  "session (main (ex_app_env transport_raises)
       \<lparr>session = ex_admin_session, outbox = [], shown = []\<rparr>
       (Submit_click ''c.pdf'' (Analyzer_returns (Some ex_results)) 6 6))
     K_analysis_complete = Some (PBool True)
   \<and> outbox (foldl (main (ex_app_env transport_raises))
       (main (ex_app_env transport_raises)
          \<lparr>session = ex_admin_session, outbox = [], shown = []\<rparr>
          (Submit_click ''c.pdf'' (Analyzer_returns (Some ex_results)) 6 6))
       [Redraw, Redraw])
     = outbox (main (ex_app_env transport_raises)
       \<lparr>session = ex_admin_session, outbox = [], shown = []\<rparr>
       (Submit_click ''c.pdf'' (Analyzer_returns (Some ex_results)) 6 6))"
proof -
  let ?w = "\<lparr>session = ex_admin_session, outbox = [], shown = []\<rparr>"
  have full: "check_user_session (session ?w)"
    using ex_admin_full by simp
  have idle: "\<not> run_complete (session ?w)"
    using ex_admin_idle by simp
  have en: "enabled (env_notifier (ex_app_env transport_raises))"
    using ex_notifier_enabled by simp
  have raises: "\<forall>m. \<not> env_yag (ex_app_env transport_raises) (outbox ?w) m"
    by (simp add: transport_raises_def)
  have noreset: "Analyze_another_click \<notin> set [Redraw, Redraw]"
    by simp
  note t = transport_failure_handling [OF full idle en ex_results_nonempty raises,
      of "''c.pdf''" 6 6]
  from t noreset show ?thesis
    by blast
qed

subsection \<open>Average risk score\<close>

lemma risk_percentages_loop_map_filter:
  "risk_percentages_loop float_of results acc =
     acc @ List.map_filter
             (\<lambda>r. float_of (strip (remove_char CHR ''%'' (risk_percent r)))) results"
  by (induction results arbitrary: acc)
    (simp_all add: map_filter_simps Let_def split: option.splits)

lemma strip_examples:
  "strip (remove_char CHR ''%'' ''42%'') = ''42''"
  "strip (remove_char CHR ''%'' '' 7 % '') = ''7''"
  "strip (remove_char CHR ''%'' ''abc'') = ''abc''"
  "strip (remove_char CHR ''%'' ''4%2'') = ''42''"
  by (simp_all add: strip_def remove_char_def is_space_def)

lemma float_of_digits_examples:
  "float_of_digits ''42'' = Some 42"
  "float_of_digits ''7'' = Some 7"
  "float_of_digits ''abc'' = None"
  "float_of_digits ''4%2'' = None"
  by (simp_all add: float_of_digits_def is_digit_def digit_value_def)

text \<open>
  C7, as the claim states it, fails: the code removes every \<^verbatim>\<open>%\<close> of the text, not
  only a trailing one. The text \<^verbatim>\<open>4%2\<close> has no trailing \<^verbatim>\<open>%\<close> and is not a
  number, so as the claim words it the record is excluded and the average is 0; the code
  reads it as 42.
\<close>

theorem average_percent_sign_counterexample:
  "avg_risk float_of_digits [clause_with ''Low'' ''4%2''] = 42
   \<and> spec_avg_risk float_of_digits [clause_with ''Low'' ''4%2''] = 0"
proof -
  have code: "avg_risk float_of_digits [clause_with ''Low'' ''4%2''] = 42"
    by (simp add: avg_risk_def clause_with_def strip_examples float_of_digits_examples)
  have "spec_strip_percent ''4%2'' = ''4%2''"
    by (simp add: spec_strip_percent_def strip_def is_space_def)
  then have spec: "spec_avg_risk float_of_digits [clause_with ''Low'' ''4%2''] = 0"
    by (simp add: spec_avg_risk_def clause_with_def map_filter_simps float_of_digits_examples)
  from code spec show ?thesis
    by simp
qed

text \<open>
  C7, amended. The average risk score is computed by removing every \<^verbatim>\<open>%\<close> from each
  record's risk percentage, then the surrounding white space, and converting the rest to
  a number; the records whose text does not convert are left out of the numerator and of
  the denominator; the result is the mean of the converted values, and 0 when there is
  none. With the texts "42%", " 7 % " and "abc", the first two contribute 42 and 7 and
  the third is left out: the average is (42 + 7) / 2.
\<close>

theorem average_risk_score:
  "avg_risk float_of results =
     (let vs = List.map_filter
                 (\<lambda>r. float_of (strip (remove_char CHR ''%'' (risk_percent r)))) results
      in if vs = [] then 0 else sum_list vs / real (length vs))
   \<and> (float_of ''42'' = Some 42 \<and> float_of ''7'' = Some 7 \<and> float_of ''abc'' = None \<longrightarrow>
        avg_risk float_of
          [clause_with l1 ''42%'', clause_with l2 '' 7 % '', clause_with l3 ''abc'']
        = (42 + 7) / 2)"
proof -
  have mean: "avg_risk float_of rs =
     (let vs = List.map_filter
                 (\<lambda>r. float_of (strip (remove_char CHR ''%'' (risk_percent r)))) rs
      in if vs = [] then 0 else sum_list vs / real (length vs))" for rs
    by (simp add: avg_risk_def risk_percentages_loop_map_filter Let_def)
  have ex: "avg_risk float_of
          [clause_with l1 ''42%'', clause_with l2 '' 7 % '', clause_with l3 ''abc'']
        = (42 + 7) / 2"
    if "float_of ''42'' = Some 42 \<and> float_of ''7'' = Some 7 \<and> float_of ''abc'' = None"
    using that
    by (simp add: mean clause_with_def map_filter_simps strip_examples)
  from mean [of results] ex show ?thesis
    by blast
qed

theorem average_risk_score_witness:
  "avg_risk float_of_digits
     [clause_with ''High'' ''42%'', clause_with ''Low'' '' 7 % '', clause_with ''Low'' ''abc'']
   = 49 / 2"
proof -
  have h: "float_of_digits ''42'' = Some 42 \<and> float_of_digits ''7'' = Some 7
           \<and> float_of_digits ''abc'' = None"
    by (simp add: float_of_digits_examples)
  have "avg_risk float_of_digits
     [clause_with ''High'' ''42%'', clause_with ''Low'' '' 7 % '', clause_with ''Low'' ''abc'']
     = (42 + 7) / 2"
    using average_risk_score [of float_of_digits _ "''High''" "''Low''" "''Low''"] h
    by blast
  then show ?thesis
    by simp
qed

subsection \<open>Report composition\<close>

lemma summary_none_iff:
  "generate_analysis_summary renv s now1 now2 results contract_name = None
     \<longleftrightarrow> results = None \<or> results = Some [] \<or> \<not> check_user_session s"
  by (auto simp: generate_analysis_summary_def Let_def split: option.splits prod.splits)

lemma summary_footer_date:
  assumes "check_user_session s" "rs \<noteq> []"
  shows "generate_analysis_summary renv s now1 now2 (Some rs) contract_name
           = generate_analysis_summary renv s now1 now2' (Some rs) contract_name
         \<longleftrightarrow> strftime_bdY renv now2 = strftime_bdY renv now2'"
  using assms
  by (simp add: generate_analysis_summary_def Let_def split: prod.splits)

lemma summary_same_inputs:
  assumes "report_metrics rs = report_metrics rs'"
    and "check_user_session s = check_user_session s'"
    and "fst (get_user_info s) = fst (get_user_info s')"
    and "strftime_bdY renv now1 = strftime_bdY renv now1'"
    and "strftime_bdY renv now2 = strftime_bdY renv now2'"
  shows "generate_analysis_summary renv s now1 now2 (Some rs) contract_name
       = generate_analysis_summary renv s' now1' now2' (Some rs') contract_name"
proof -
  from assms(1) have len: "length rs = length rs'"
    and h: "length (filter (\<lambda>r. risk_level r = ''High'') rs)
          = length (filter (\<lambda>r. risk_level r = ''High'') rs')"
    and m: "length (filter (\<lambda>r. risk_level r = ''Medium'') rs)
          = length (filter (\<lambda>r. risk_level r = ''Medium'') rs')"
    and l: "length (filter (\<lambda>r. risk_level r = ''Low'') rs)
          = length (filter (\<lambda>r. risk_level r = ''Low'') rs')"
    by (simp_all add: report_metrics_def count_level_def)
  from len have e: "rs = [] \<longleftrightarrow> rs' = []"
    by auto
  show ?thesis
    unfolding generate_analysis_summary_def
    by (simp only: len h m l e assms(2-5) option.case)
qed

lemma str_nat_examples:
  "str_nat 0 = ''0''"
  "str_nat (Suc 0) = ''1''"
  by code_simp+

text \<open>
  C8, as the claim states it, fails: the function is given no timestamp. It reads the
  clock itself, twice, once for the date of the body and once for the date of the
  footer, so one timestamp does not fix the report. Here two calls have the same
  results, contract name, session and first clock reading; the second reading falls on
  the same day in one call and on the next day in the other, and the reports differ.
\<close>

theorem report_second_reading_counterexample:
  "generate_analysis_summary ex_report_env ex_admin_session 5 5 (Some ex_results) ''c.pdf''
   \<noteq> generate_analysis_summary ex_report_env ex_admin_session 5 86400 (Some ex_results)
       ''c.pdf''"
proof -
  have "strftime_bdY ex_report_env 5 \<noteq> strftime_bdY ex_report_env 86400"
    by (simp add: ex_report_env_def str_nat_examples)
  then show ?thesis
    by (simp add: summary_footer_date [OF ex_admin_full ex_results_nonempty])
qed

text \<open>
  C8, amended. Report composition takes the result list and the contract name as
  arguments and reads the session store and the clock (twice) itself. Its output is
  determined by the four counts (total, High, Medium, Low), the contract name, the
  session's eligibility and display name, and the formatted dates of both clock
  readings: two calls that agree on these return the same text, whatever else differs
  between the result lists, the sessions and the readings. No report is returned exactly
  when the result list is null or empty or the session is not eligible; and for an
  eligible session and a non-empty result list, two calls that differ only in the second
  clock reading return the same text exactly when that reading formats to the same date.
\<close>

theorem report_determined_by_inputs:
  "(report_metrics rs = report_metrics rs'
      \<and> check_user_session s = check_user_session s'
      \<and> fst (get_user_info s) = fst (get_user_info s')
      \<and> strftime_bdY renv now1 = strftime_bdY renv now1'
      \<and> strftime_bdY renv now2 = strftime_bdY renv now2' \<longrightarrow>
      generate_analysis_summary renv s now1 now2 (Some rs) contract_name
        = generate_analysis_summary renv s' now1' now2' (Some rs') contract_name)
   \<and> (generate_analysis_summary renv s now1 now2 results contract_name = None
        \<longleftrightarrow> results = None \<or> results = Some [] \<or> \<not> check_user_session s)
   \<and> (check_user_session s \<and> rs \<noteq> [] \<longrightarrow>
        (generate_analysis_summary renv s now1 now2 (Some rs) contract_name
           = generate_analysis_summary renv s now1 now2' (Some rs) contract_name
         \<longleftrightarrow> strftime_bdY renv now2 = strftime_bdY renv now2'))"
proof -
  have a: "report_metrics rs = report_metrics rs'
      \<and> check_user_session s = check_user_session s'
      \<and> fst (get_user_info s) = fst (get_user_info s')
      \<and> strftime_bdY renv now1 = strftime_bdY renv now1'
      \<and> strftime_bdY renv now2 = strftime_bdY renv now2' \<longrightarrow>
      generate_analysis_summary renv s now1 now2 (Some rs) contract_name
        = generate_analysis_summary renv s' now1' now2' (Some rs') contract_name"
    using summary_same_inputs by blast
  have b: "generate_analysis_summary renv s now1 now2 results contract_name = None
        \<longleftrightarrow> results = None \<or> results = Some [] \<or> \<not> check_user_session s"
    by (rule summary_none_iff)
  have c: "check_user_session s \<and> rs \<noteq> [] \<longrightarrow>
        (generate_analysis_summary renv s now1 now2 (Some rs) contract_name
           = generate_analysis_summary renv s now1 now2' (Some rs) contract_name
         \<longleftrightarrow> strftime_bdY renv now2 = strftime_bdY renv now2')"
    using summary_footer_date by blast
  from a b c show ?thesis
    by (intro conjI)
qed

theorem report_determined_by_inputs_witness:
  "generate_analysis_summary ex_report_env ex_admin_session 5 6
     (Some [clause_with ''Low'' ''10%'', clause_with ''High'' ''90%'']) ''c.pdf''
   = generate_analysis_summary ex_report_env (ex_admin_session(K_login_time \<mapsto> PTime 9)) 7 8
     (Some [clause_with ''High'' ''75%'', clause_with ''Low'' ''abc'']) ''c.pdf''
   \<and> generate_analysis_summary ex_report_env ex_admin_session 5 6
     (Some [clause_with ''Low'' ''10%'', clause_with ''High'' ''90%'']) ''c.pdf'' \<noteq> None"
proof -
  let ?rs = "[clause_with ''Low'' ''10%'', clause_with ''High'' ''90%'']"
  let ?rs' = "[clause_with ''High'' ''75%'', clause_with ''Low'' ''abc'']"
  let ?s' = "ex_admin_session(K_login_time \<mapsto> PTime 9)"
  have m: "report_metrics ?rs = report_metrics ?rs'"
    by (simp add: report_metrics_def count_level_def clause_with_def)
  have c: "check_user_session ex_admin_session = check_user_session ?s'"
    by (simp add: check_user_session_def ss_get_def)
  have u: "fst (get_user_info ex_admin_session) = fst (get_user_info ?s')"
    by (simp add: get_user_info_def ss_get_def)
  have d1: "strftime_bdY ex_report_env 5 = strftime_bdY ex_report_env 7"
    and d2: "strftime_bdY ex_report_env 6 = strftime_bdY ex_report_env 8"
    by (simp_all add: ex_report_env_def)
  note t = report_determined_by_inputs
    [of ?rs ?rs' ex_admin_session ?s' ex_report_env 5 7 6 8 "''c.pdf''" "Some ?rs"]
  have eq: "generate_analysis_summary ex_report_env ex_admin_session 5 6 (Some ?rs) ''c.pdf''
      = generate_analysis_summary ex_report_env ?s' 7 8 (Some ?rs') ''c.pdf''"
    using t m c u d1 d2 by blast
  have "\<not> (Some ?rs = None \<or> Some ?rs = Some [] \<or> \<not> check_user_session ex_admin_session)"
    using ex_admin_full by simp
  then have ne:
    "generate_analysis_summary ex_report_env ex_admin_session 5 6 (Some ?rs) ''c.pdf'' \<noteq> None"
    using t by blast
  from eq ne show ?thesis
    by blast
qed

end
